theory Spec2Isabelle
  imports Main "HOL-Library.Sublist"
begin

section \<open>Text helpers\<close>

text \<open>
  Strings are ASCII character lists. \<open>is_space\<close> is the whitespace class of
  \<^verbatim>\<open>str.strip()\<close> and of \<^verbatim>\<open>\s\<close> in a \<^verbatim>\<open>str\<close> pattern, restricted to ASCII.
\<close>

definition is_space :: "char \<Rightarrow> bool" where
  "is_space c \<longleftrightarrow> c \<in> set [CHR '' '', CHR 0x09, CHR 0x0A, CHR 0x0B, CHR 0x0C, CHR 0x0D,
     CHR 0x1C, CHR 0x1D, CHR 0x1E, CHR 0x1F]"

definition strip :: "string \<Rightarrow> string" where
  "strip s = rev (dropWhile is_space (rev (dropWhile is_space s)))"

definition lower :: "string \<Rightarrow> string" where
  "lower s =
     map (\<lambda>c. case map_of (zip ''ABCDEFGHIJKLMNOPQRSTUVWXYZ'' ''abcdefghijklmnopqrstuvwxyz'') c of
                 None \<Rightarrow> c
               | Some l \<Rightarrow> l) s"

text \<open>\<^verbatim>\<open>sub in s\<close> for two strings.\<close>

fun contains :: "string \<Rightarrow> string \<Rightarrow> bool" where
  "contains sub [] = (sub = [])"
| "contains sub (c # cs) = (prefix sub (c # cs) \<or> contains sub cs)"

definition is_digit :: "char \<Rightarrow> bool" where
  "is_digit c \<longleftrightarrow> c \<in> set ''0123456789''"

section \<open>What the standard JSON decoder accepts\<close>

text \<open>
  \<^verbatim>\<open>json.loads\<close> belongs to the standard library, not to the repository. The extractor
  below takes the decoder as a parameter \<open>loads\<close>: \<open>loads s\<close> holds when
  \<^verbatim>\<open>json.loads(s)\<close> returns and fails when it raises \<^verbatim>\<open>JSONDecodeError\<close>.
  \<open>json_loads\<close> is a recogniser for the decoder's grammar (strict mode, with the
  \<^verbatim>\<open>NaN\<close> and \<^verbatim>\<open>Infinity\<close> literals it admits), used where a concrete
  decoder is needed. Its fuel bounds the number of nested and chained calls; every call
  consumes a character first, so the length of the text plus one is enough.
\<close>

definition json_ws :: "char \<Rightarrow> bool" where
  "json_ws c \<longleftrightarrow> c \<in> set [CHR '' '', CHR 0x09, CHR 0x0A, CHR 0x0D]"

definition is_hex :: "char \<Rightarrow> bool" where
  "is_hex c \<longleftrightarrow> c \<in> set ''0123456789abcdefABCDEF''"

fun json_string :: "string \<Rightarrow> string option" where
  "json_string [] = None"
| "json_string [c] = (if c = CHR 0x22 then Some [] else None)"
| "json_string (c # e # es) =
     (if c = CHR 0x22 then Some (e # es)
      else if c = CHR 0x5C then
        (if e \<in> set [CHR 0x22, CHR 0x5C, CHR ''/'', CHR ''b'', CHR ''f'', CHR ''n'', CHR ''r'', CHR ''t'']
           then json_string es
         else if e = CHR ''u'' \<and> 4 \<le> length es \<and> list_all is_hex (take 4 es)
           then json_string (drop 4 es)
         else None)
      else if (of_char c :: nat) < 32 then None
      else json_string (e # es))"

definition json_exponent :: "string \<Rightarrow> string" where
  "json_exponent r =
     (case r of
        e # s # rest \<Rightarrow>
          if e = CHR ''e'' \<or> e = CHR ''E'' then
            (if is_digit s then dropWhile is_digit rest
             else if (s = CHR ''+'' \<or> s = CHR ''-'') \<and> rest \<noteq> [] \<and> is_digit (hd rest)
               then dropWhile is_digit (tl rest)
             else r)
          else r
      | _ \<Rightarrow> r)"

definition json_fraction :: "string \<Rightarrow> string" where
  "json_fraction r =
     (case r of
        p # q # qs \<Rightarrow> if p = CHR ''.'' \<and> is_digit q then dropWhile is_digit qs else r
      | _ \<Rightarrow> r)"

definition json_number :: "string \<Rightarrow> string option" where
  "json_number cs =
     (case (if prefix ''-'' cs then tl cs else cs) of
        [] \<Rightarrow> None
      | d # ds \<Rightarrow>
          if \<not> is_digit d then None
          else Some (json_exponent (json_fraction
                 (if d = CHR ''0'' then ds else dropWhile is_digit ds))))"

definition json_literal :: "string \<Rightarrow> string option" where
  "json_literal cs =
     (if prefix ''null'' cs then Some (drop 4 cs)
      else if prefix ''true'' cs then Some (drop 4 cs)
      else if prefix ''false'' cs then Some (drop 5 cs)
      else (case json_number cs of
              Some r \<Rightarrow> Some r
            | None \<Rightarrow>
                if prefix ''NaN'' cs then Some (drop 3 cs)
                else if prefix ''Infinity'' cs then Some (drop 8 cs)
                else if prefix ''-Infinity'' cs then Some (drop 9 cs)
                else None))"

fun json_value :: "nat \<Rightarrow> string \<Rightarrow> string option"
  and json_members :: "nat \<Rightarrow> string \<Rightarrow> string option"
  and json_elements :: "nat \<Rightarrow> string \<Rightarrow> string option" where
  "json_value 0 cs = None"
| "json_value (Suc n) cs =
     (if prefix [CHR 0x22] cs then json_string (tl cs)
      else if prefix ''{'' cs then
        (if prefix ''}'' (dropWhile json_ws (tl cs)) then Some (tl (dropWhile json_ws (tl cs)))
         else json_members n (dropWhile json_ws (tl cs)))
      else if prefix ''['' cs then
        (if prefix '']'' (dropWhile json_ws (tl cs)) then Some (tl (dropWhile json_ws (tl cs)))
         else json_elements n (dropWhile json_ws (tl cs)))
      else json_literal cs)"
| "json_members 0 cs = None"
| "json_members (Suc n) cs =
     (if \<not> prefix [CHR 0x22] cs then None
      else (case json_string (tl cs) of
              None \<Rightarrow> None
            | Some r1 \<Rightarrow>
                if \<not> prefix '':'' (dropWhile json_ws r1) then None
                else (case json_value n (dropWhile json_ws (tl (dropWhile json_ws r1))) of
                        None \<Rightarrow> None
                      | Some r3 \<Rightarrow>
                          if prefix '','' (dropWhile json_ws r3)
                            then json_members n (dropWhile json_ws (tl (dropWhile json_ws r3)))
                          else if prefix ''}'' (dropWhile json_ws r3)
                            then Some (tl (dropWhile json_ws r3))
                          else None)))"
| "json_elements 0 cs = None"
| "json_elements (Suc n) cs =
     (case json_value n cs of
        None \<Rightarrow> None
      | Some r3 \<Rightarrow>
          if prefix '','' (dropWhile json_ws r3)
            then json_elements n (dropWhile json_ws (tl (dropWhile json_ws r3)))
          else if prefix '']'' (dropWhile json_ws r3)
            then Some (tl (dropWhile json_ws r3))
          else None)"

definition json_loads :: "string \<Rightarrow> bool" where
  "json_loads s =
     (case json_value (Suc (length s)) (dropWhile json_ws s) of
        None \<Rightarrow> False
      | Some r \<Rightarrow> dropWhile json_ws r = [])"

section \<open>Response extractor: \<^verbatim>\<open>_extract_json_from_text\<close>\<close>

definition fence :: string where
  "fence = [CHR 0x60, CHR 0x60, CHR 0x60]"

text \<open>The text before and after the leftmost fence, if there is one.\<close>

fun find_fence :: "string \<Rightarrow> (string \<times> string) option" where
  "find_fence [] = None"
| "find_fence (c # cs) =
     (if prefix fence (c # cs) then Some ([], drop 3 (c # cs))
      else (case find_fence cs of
              None \<Rightarrow> None
            | Some (pre, post) \<Rightarrow> Some (c # pre, post)))"

text \<open>
  \<^verbatim>\<open>re.findall(r'```(?:json)?\s*([\s\S]*?)```', text)\<close>: after an opening fence the
  optional tag and the whitespace are consumed greedily, the group is the text up to the
  next fence, and the search resumes behind the closing fence. When no closing fence
  follows, the search moves one character forward.
\<close>

function fenced_blocks :: "string \<Rightarrow> string list" where
  "fenced_blocks text =
     (case find_fence text of
        None \<Rightarrow> []
      | Some (pre, post) \<Rightarrow>
          (case find_fence (dropWhile is_space
                  (if prefix ''json'' post then drop 4 post else post)) of
             None \<Rightarrow> fenced_blocks (drop (Suc (length pre)) text)
           | Some (captured, rest) \<Rightarrow> captured # fenced_blocks rest))"
  by pat_completeness auto
termination
proof (relation "measure length")
  have len: "length s = length b + 3 + length a" if "find_fence s = Some (b, a)" for s b a
    using that
  proof (induction s arbitrary: b a)
    case Nil
    then show ?case by simp
  next
    case (Cons c cs)
    then show ?case
      by (auto simp: fence_def split: if_splits option.splits dest: prefix_length_le)
  qed
  show "wf (measure length)" by simp
  show "(drop (Suc (length pre)) s, s) \<in> measure length"
    if "find_fence s = Some x" "(pre, post) = x" for s x pre post
    using that by (auto dest: len)
  show "(rest, s) \<in> measure length"
    if a: "find_fence s = Some x" "(pre, post) = x"
      and b: "find_fence (dropWhile is_space
                  (if prefix ''json'' post then drop 4 post else post)) = Some y"
        "(captured, rest) = y"
    for s x pre post y captured rest
  proof -
    from b have "length rest \<le> length (dropWhile is_space
                  (if prefix ''json'' post then drop 4 post else post))"
      by (auto dest: len)
    also have "\<dots> \<le> length (if prefix ''json'' post then drop 4 post else post)"
      by (rule length_dropWhile_le)
    also have "\<dots> \<le> length post" by simp
    finally show ?thesis using a by (auto dest: len)
  qed
qed

declare fenced_blocks.simps [simp del]

text \<open>The loop over the matches: the first block whose stripped text decodes.\<close>

fun first_valid :: "(string \<Rightarrow> bool) \<Rightarrow> string list \<Rightarrow> string option" where
  "first_valid loads [] = None"
| "first_valid loads (m # ms) =
     (if loads (strip m) then Some (strip m) else first_valid loads ms)"

text \<open>
  The walk \<^verbatim>\<open>for i in range(start_idx, len(text))\<close>. \<open>seen\<close> is
  \<^verbatim>\<open>text[start_idx:i]\<close>, so that \<open>seen @ [c]\<close> is the candidate
  \<^verbatim>\<open>text[start_idx:i+1]\<close>; \<^verbatim>\<open>start_idx\<close> is never moved.
\<close>

fun brace_walk ::
  "(string \<Rightarrow> bool) \<Rightarrow> string \<Rightarrow> int \<Rightarrow> bool \<Rightarrow> bool \<Rightarrow> string \<Rightarrow> string option" where
  "brace_walk loads seen brace_count in_string escape_next [] = None"
| "brace_walk loads seen brace_count in_string escape_next (c # cs) =
     (if c = CHR 0x22 \<and> \<not> escape_next then
        brace_walk loads (seen @ [c]) brace_count (\<not> in_string) False cs
      else if c = CHR 0x5C \<and> in_string \<and> \<not> escape_next then
        brace_walk loads (seen @ [c]) brace_count in_string True cs
      else if \<not> in_string then
        (if c = CHR ''{'' then
           brace_walk loads (seen @ [c]) (brace_count + 1) in_string False cs
         else if c = CHR ''}'' then
           (if brace_count - 1 = 0 \<and> loads (seen @ [c]) then Some (seen @ [c])
            else brace_walk loads (seen @ [c]) (brace_count - 1) in_string False cs)
         else brace_walk loads (seen @ [c]) brace_count in_string False cs)
      else brace_walk loads (seen @ [c]) brace_count in_string False cs)"

text \<open>The empty string is the function's signal that nothing was found.\<close>

definition extract_json_from_text :: "(string \<Rightarrow> bool) \<Rightarrow> string \<Rightarrow> string" where
  "extract_json_from_text loads text =
     (case first_valid loads (fenced_blocks text) of
        Some cleaned_json \<Rightarrow> cleaned_json
      | None \<Rightarrow>
          (case brace_walk loads [] 0 False False (dropWhile (\<lambda>c. c \<noteq> CHR ''{'') text) of
             Some potential_json \<Rightarrow> potential_json
           | None \<Rightarrow>
               if prefix ''{'' (strip text) \<and> suffix ''}'' (strip text) \<and> loads (strip text)
               then strip text else []))"

section \<open>Values, issues and analysis results\<close>

text \<open>
  An issue is a Python dictionary from field names to values. An analysis result is an
  instance of one of the three schema classes; the merge reads only its field names
  (\<^verbatim>\<open>model_fields\<close>) and their values (\<^verbatim>\<open>getattr\<close>).
\<close>

datatype pyval = PNone | PBool bool | PInt int | PStr string
  | PList "pyval list" | PDict "(string \<times> pyval) list"

type_synonym issue = "string \<rightharpoonup> pyval"

datatype error = HttpUnauthorizedError | JiraFetchError | AttributeError | TypeError | KeyError

datatype level = DEBUG | INFO | WARNING | ERROR

text \<open>A log record: level, message template, arguments.\<close>

datatype log_entry = Log level string "pyval list"

record analysis =
  model_fields :: "string list"
  getattr :: "string \<Rightarrow> pyval"

datatype variant = JiraBugAnalysis | JiraEpicAnalysis | JiraIssueAnalysis

definition schema_cls :: "string \<Rightarrow> variant" where
  "schema_cls is_type =
     (if lower is_type = ''bug'' then JiraBugAnalysis
      else if lower is_type = ''epic'' then JiraEpicAnalysis
      else JiraIssueAnalysis)"

definition truthy :: "pyval \<Rightarrow> bool" where
  "truthy v =
     (case v of
        PNone \<Rightarrow> False
      | PBool b \<Rightarrow> b
      | PInt i \<Rightarrow> i \<noteq> 0
      | PStr s \<Rightarrow> s \<noteq> []
      | PList xs \<Rightarrow> xs \<noteq> []
      | PDict kvs \<Rightarrow> kvs \<noteq> [])"

text \<open>\<^verbatim>\<open>issue.get(k, d)\<close>.\<close>

definition get_or :: "issue \<Rightarrow> string \<Rightarrow> pyval \<Rightarrow> pyval" where
  "get_or issue k d = (case issue k of None \<Rightarrow> d | Some v \<Rightarrow> v)"

section \<open>Retry controller: \<^verbatim>\<open>analyze_issue_with_ai\<close>\<close>

text \<open>
  What one pass through the body of the \<^verbatim>\<open>while\<close> loop meets before the response is
  examined:
  \<^item> \<open>SchemaError\<close>: \<^verbatim>\<open>schema_cls(**issue_data)\<close> raised a validation error (a
    \<^verbatim>\<open>ValueError\<close>) before the model was called;
  \<^item> \<open>Timeout\<close>: \<^verbatim>\<open>asyncio.wait_for\<close> raised \<^verbatim>\<open>TimeoutError\<close>;
  \<^item> \<open>Raised ex\<close>: the call raised another exception, of which the handlers read the
    class, \<^verbatim>\<open>str(e)\<close>, \<^verbatim>\<open>status_code\<close> and \<^verbatim>\<open>llm_output\<close> (absent, or
    present with the result of rebuilding an analysis from it, \<open>None\<close> when that raises);
  \<^item> \<open>Result r\<close>: the call returned; \<open>r\<close> is \<^verbatim>\<open>result.value[0].content\<close>, or
    \<open>None\<close> for an empty result structure.
\<close>

datatype exn_class = UnauthorizedExn | ValueErrorExn | OtherExn

record exn =
  exn_class :: exn_class
  message :: string
  status_code :: "int option"
  llm_output :: "analysis option option"

datatype outcome = SchemaError | Timeout | Raised exn | Result "string option"

text \<open>The observable trace of the controller: attempts as logged (from 1), and sleeps in seconds.\<close>

datatype event = is_Attempt: Attempt nat | is_Sleep: Sleep nat

text \<open>
  How a pass leaves the loop body: \<^verbatim>\<open>return\<close>, \<^verbatim>\<open>raise\<close>, the
  \<^verbatim>\<open>continue\<close> of the parameter-error handler, the sleep and \<^verbatim>\<open>continue\<close>
  of the timeout handler, or falling through to the back-off at the end of the body.
\<close>

datatype step = Return analysis | Fatal error | RetryNow | RetryAfterSleep | Backoff

text \<open>
  The collaborators and settings an enricher is built with. The schema classes of
  \<^verbatim>\<open>src/models/jira_models.py\<close> and the kernel are outside the repository's sources
  at hand, so their validation and the outcome of each call are parameters;
  \<open>kernel_invoke\<close> is given the lower-cased issue type, the snippet and the attempt
  number. \<open>py_str\<close> is the built-in \<^verbatim>\<open>str()\<close> that the f-string of the browsable
  URL applies to the key.
\<close>

record env =
  json_loads_ok :: "string \<Rightarrow> bool"
  model_validate_json :: "variant \<Rightarrow> string \<Rightarrow> analysis option"
  kernel_invoke :: "string \<Rightarrow> issue \<Rightarrow> nat \<Rightarrow> outcome"
  py_str :: "pyval \<Rightarrow> string"
  jira_url :: "string option"

definition max_attempts :: nat where
  "max_attempts = 3"

definition param_rejected :: "string \<Rightarrow> bool" where
  "param_rejected error_msg \<longleftrightarrow>
     contains ''unsupported_parameter'' error_msg \<or> contains ''unsupported_value'' error_msg"

definition run_attempt ::
  "(string \<Rightarrow> bool) \<Rightarrow> (string \<Rightarrow> analysis option) \<Rightarrow> outcome \<Rightarrow> step" where
  "run_attempt loads validate oc =
     (case oc of
        SchemaError \<Rightarrow> Backoff
      | Timeout \<Rightarrow> RetryAfterSleep
      | Raised e \<Rightarrow>
          if param_rejected (message e) then RetryNow
          else (case exn_class e of
                  UnauthorizedExn \<Rightarrow> Fatal HttpUnauthorizedError
                | ValueErrorExn \<Rightarrow> Backoff
                | OtherExn \<Rightarrow>
                    if status_code e = Some 401 \<or> contains ''401'' (message e)
                    then Fatal HttpUnauthorizedError
                    else (case llm_output e of
                            Some (Some a) \<Rightarrow> Return a
                          | _ \<Rightarrow> Backoff))
      | Result None \<Rightarrow> Backoff
      | Result (Some result_str) \<Rightarrow>
          (if extract_json_from_text loads result_str = [] then Backoff
           else (case validate (extract_json_from_text loads result_str) of
                   Some a \<Rightarrow> Return a
                 | None \<Rightarrow> Backoff)))"

definition emit :: "event list \<Rightarrow> event list \<times> 'r \<Rightarrow> event list \<times> 'r" where
  "emit es p = (es @ fst p, snd p)"

text \<open>
  The loop \<^verbatim>\<open>while attempt < max_attempts\<close>; \<open>attempt\<close> counts the passes made so
  far. The result is \<open>Inl\<close> for a raised error, \<open>Inr None\<close> for \<^verbatim>\<open>None\<close>.
\<close>

function attempt_loop ::
  "(string \<Rightarrow> bool) \<Rightarrow> (string \<Rightarrow> analysis option) \<Rightarrow> (nat \<Rightarrow> outcome) \<Rightarrow> nat
     \<Rightarrow> event list \<times> (error + analysis option)" where
  "attempt_loop loads validate invoke attempt =
     (if attempt < max_attempts then
        (case run_attempt loads validate (invoke (attempt + 1)) of
           Return a \<Rightarrow> ([Attempt (attempt + 1)], Inr (Some a))
         | Fatal err \<Rightarrow> ([Attempt (attempt + 1)], Inl err)
         | RetryNow \<Rightarrow>
             emit [Attempt (attempt + 1)] (attempt_loop loads validate invoke (attempt + 1))
         | RetryAfterSleep \<Rightarrow>
             emit [Attempt (attempt + 1), Sleep (2 ^ (attempt + 1))]
               (attempt_loop loads validate invoke (attempt + 1))
         | Backoff \<Rightarrow>
             emit (Attempt (attempt + 1) #
                   (if attempt + 1 < max_attempts then [Sleep (2 ^ (attempt + 1))] else []))
               (attempt_loop loads validate invoke (attempt + 1)))
      else ([], Inr None))"
  by pat_completeness auto
termination
  by (relation "measure (\<lambda>(loads, validate, invoke, attempt). max_attempts - attempt)") auto

declare attempt_loop.simps [simp del]

definition analyze_issue_with_ai ::
  "env \<Rightarrow> issue \<Rightarrow> string \<Rightarrow> event list \<times> (error + analysis option)" where
  "analyze_issue_with_ai e issue_data is_type =
     attempt_loop (json_loads_ok e) (model_validate_json e (schema_cls is_type))
       (kernel_invoke e (lower is_type) issue_data) 0"

section \<open>Issue enricher: \<^verbatim>\<open>add_ai_analysis_to_issue\<close>\<close>

text \<open>\<^verbatim>\<open>issue.get('issuetype', '')\<close>, which must be a string for \<^verbatim>\<open>.lower()\<close>.\<close>

definition issue_type_text :: "issue \<Rightarrow> error + string" where
  "issue_type_text issue =
     (case issue ''issuetype'' of
        None \<Rightarrow> Inr []
      | Some (PStr s) \<Rightarrow> Inr s
      | Some _ \<Rightarrow> Inl AttributeError)"

definition snippet_keys :: "string \<Rightarrow> string list" where
  "snippet_keys issuetype =
     [''key'', ''summary'', ''description'', ''priority'', ''components'', ''comments'', ''imgURLs'']
     @ (if lower issuetype = ''epic'' then [''children'', ''parent''] else [])"

text \<open>\<^verbatim>\<open>{k: issue.get(k) for k in keys}\<close>.\<close>

definition snippet_of :: "string list \<Rightarrow> issue \<Rightarrow> issue" where
  "snippet_of keys issue =
     (\<lambda>k. if k \<in> set keys then Some (get_or issue k PNone) else None)"

text \<open>\<^verbatim>\<open>for field in result.model_fields: issue[field] = getattr(result, field)\<close>.\<close>

definition merge_fields :: "issue \<Rightarrow> analysis \<Rightarrow> issue" where
  "merge_fields issue result =
     fold (\<lambda>field i. i(field \<mapsto> getattr result field)) (model_fields result) issue"

text \<open>\<^verbatim>\<open>re.match(r"IP-\d+", s)\<close>: a match at the start of \<open>s\<close>.\<close>

definition re_match_ip :: "string \<Rightarrow> bool" where
  "re_match_ip s \<longleftrightarrow>
     prefix ''IP-'' s \<and> (case drop 3 s of [] \<Rightarrow> False | d # _ \<Rightarrow> is_digit d)"

definition clean_ticket_number :: "issue \<Rightarrow> error + issue" where
  "clean_ticket_number issue =
     (case get_or issue ''ticket_number'' (PStr []) of
        PStr s \<Rightarrow> Inr (if re_match_ip s then issue(''ticket_number'' \<mapsto> PStr []) else issue)
      | _ \<Rightarrow> Inl TypeError)"

definition set_browsable_url :: "env \<Rightarrow> issue \<Rightarrow> error + issue" where
  "set_browsable_url e issue =
     (case jira_url e of
        None \<Rightarrow> Inl KeyError
      | Some url \<Rightarrow>
          (case issue ''key'' of
             None \<Rightarrow> Inl KeyError
           | Some k \<Rightarrow> Inr (issue(''browsable_url'' \<mapsto> PStr (url @ ''/browse/'' @ py_str e k)))))"

text \<open>
  The issue as the call leaves it, the value returned, and the records the function
  itself logs at error and info level.
\<close>

record enrichment =
  issue_after :: issue
  returned :: bool
  logged :: "log_entry list"

definition add_ai_analysis_to_issue :: "env \<Rightarrow> issue \<Rightarrow> error + enrichment" where
  "add_ai_analysis_to_issue e issue =
     (case issue_type_text issue of
        Inl err \<Rightarrow> Inl err
      | Inr issuetype \<Rightarrow>
          (case snd (analyze_issue_with_ai e (snippet_of (snippet_keys issuetype) issue)
                       issuetype) of
             Inl err \<Rightarrow> Inl err
           | Inr None \<Rightarrow>
               Inr \<lparr>issue_after = issue(''ai_enriched'' \<mapsto> PBool False), returned = False,
                    logged = [Log ERROR ''No AI result for %s, skipping.''
                                [get_or issue ''key'' PNone]]\<rparr>
           | Inr (Some result) \<Rightarrow>
               (case clean_ticket_number (merge_fields issue result) of
                  Inl err \<Rightarrow> Inl err
                | Inr cleaned \<Rightarrow>
                    (case set_browsable_url e cleaned of
                       Inl err \<Rightarrow> Inl err
                     | Inr linked \<Rightarrow>
                         Inr \<lparr>issue_after = linked(''ai_enriched'' \<mapsto> PBool True),
                              returned = True,
                              logged = [Log INFO ''Enriched issue %s successfully.''
                                          [get_or linked ''key'' PNone]]\<rparr>))))"

section \<open>Content check: \<^verbatim>\<open>_has_meaningful_content\<close>\<close>

text \<open>\<^verbatim>\<open>v.strip()\<close>, which only a string has.\<close>

definition stripped :: "pyval \<Rightarrow> error + string" where
  "stripped v = (case v of PStr s \<Rightarrow> Inr (strip s) | _ \<Rightarrow> Inl AttributeError)"

text \<open>
  \<^verbatim>\<open>and\<close> and \<^verbatim>\<open>or\<close> evaluate their right operand only when the left one does not
  decide, so a later field is stripped only then.
\<close>

definition has_meaningful_content :: "issue \<Rightarrow> error + bool" where
  "has_meaningful_content issue =
     (case get_or issue ''issuetype'' (PStr []) of
        PStr t \<Rightarrow>
          if lower t = ''bug'' then
            (case stripped (get_or issue ''technical_summary'' (PStr [])) of
               Inl err \<Rightarrow> Inl err
             | Inr tech \<Rightarrow>
                 if tech = [] then Inr False
                 else (case stripped (get_or issue ''cause'' (PStr [])) of
                         Inl err \<Rightarrow> Inl err
                       | Inr cause \<Rightarrow>
                           if cause \<noteq> [] then Inr True
                           else (case stripped (get_or issue ''fix'' (PStr [])) of
                                   Inl err \<Rightarrow> Inl err
                                 | Inr fix \<Rightarrow> Inr (fix \<noteq> []))))
          else if lower t = ''epic'' then
            (case stripped (get_or issue ''technical_summary'' (PStr [])) of
               Inl err \<Rightarrow> Inl err
             | Inr tech \<Rightarrow>
                 if tech \<noteq> [] then Inr True
                 else (case stripped (get_or issue ''executive_summary'' (PStr [])) of
                         Inl err \<Rightarrow> Inl err
                       | Inr exec \<Rightarrow> Inr (exec \<noteq> [])))
          else
            (case stripped (get_or issue ''reasoning'' (PStr [])) of
               Inl err \<Rightarrow> Inl err
             | Inr reasoning \<Rightarrow>
                 if reasoning = [] then Inr False
                 else Inr (truthy (get_or issue ''inferredCategories'' (PList []))))
      | _ \<Rightarrow> Inl AttributeError)"

section \<open>Batch coordinator: \<^verbatim>\<open>fetch_and_analyze_issues\<close>\<close>

text \<open>
  The tracking-service client is a collaborator: building it or searching may raise, or
  \<^verbatim>\<open>parse_issues\<close> returns the list of issues.
\<close>

datatype fetched = WrapperFailed | SearchFailed | Parsed "issue list"

text \<open>
  The settings the function reads, \<open>None\<close> for a key that is absent;
  \<open>debug_logging\<close> is whether the root logger's effective level is \<^verbatim>\<open>DEBUG\<close>.
\<close>

record config =
  create_local_files :: "bool option"
  create_confluence_pages :: "bool option"
  file_types_to_save :: "string list option"
  jira_issue_type :: "string option"
  debug_logging :: bool
  has_confluence_space :: bool
  has_confluence_parent :: bool

text \<open>
  Calls to the persistence collaborators: \<^verbatim>\<open>save_issues_to_file(parsed, path, tag, type)\<close>
  with the issues, the tag and the issue type, and \<^verbatim>\<open>page_create\<close> for an issue.
\<close>

datatype persist_event = is_Save: SaveIssues "issue list" string string | PageCreate issue

text \<open>
  What formatting and creating the page of one issue comes to (the body of the inner
  \<^verbatim>\<open>try\<close>): \<^verbatim>\<open>format_issue\<close> raised, the body was shorter than 50 characters, the
  wiki answered with an error, \<^verbatim>\<open>page_create\<close> raised, the page was created, or the
  answer was none of these.
\<close>

datatype page_result = FormatRaised | BodyTooShort | ErrorResponse string | CreateRaised
  | Created | Unexpected

datatype detail = ConfluenceStatus nat nat | DuplicatesFound nat | SkippingNotEnabled
  | ProcessingCompleted

datatype warning = ConfluenceError string | AlreadyExists pyval | NoPagesCreated
  | MissingSpace | MissingParent

record status_result =
  status :: string
  details :: "detail list"
  warnings :: "warning list"

record confluence_state =
  confluence_success :: nat
  confluence_skipped :: nat
  confluence_errors :: "warning list"
  confluence_duplicates :: nat
  page_calls :: "persist_event list"

text \<open>
  \<^verbatim>\<open>asyncio.gather\<close> without \<^verbatim>\<open>return_exceptions\<close>: all results in order, or the
  exception of a task that raised. Each task owns its issue, so the tasks are run one
  after the other here.
\<close>

fun gather :: "(error + 'a) list \<Rightarrow> error + 'a list" where
  "gather [] = Inr []"
| "gather (x # xs) =
     (case x of
        Inl err \<Rightarrow> Inl err
      | Inr v \<Rightarrow> (case gather xs of Inl err \<Rightarrow> Inl err | Inr vs \<Rightarrow> Inr (v # vs)))"

definition save_calls :: "config \<Rightarrow> issue list \<Rightarrow> persist_event list" where
  "save_calls cfg parsed =
     (if (case create_local_files cfg of None \<Rightarrow> True | Some b \<Rightarrow> b) then
        concat (map (\<lambda>tag.
            if tag \<in> set (case file_types_to_save cfg of None \<Rightarrow> [''json''] | Some ts \<Rightarrow> ts)
            then [SaveIssues parsed tag
                   (case jira_issue_type cfg of
                      None \<Rightarrow> ''Issue''
                    | Some t \<Rightarrow> if t = [] then ''Issue'' else t)]
            else [])
          [''xlsx'', ''json'', ''md''])
      else [])"

definition page_step :: "issue \<Rightarrow> page_result \<Rightarrow> confluence_state \<Rightarrow> confluence_state" where
  "page_step issue r st =
     (case r of
        FormatRaised \<Rightarrow> st
      | BodyTooShort \<Rightarrow> st\<lparr>confluence_skipped := confluence_skipped st + 1\<rparr>
      | ErrorResponse error_msg \<Rightarrow>
          (if contains ''already exists'' (lower error_msg)
           then st\<lparr>confluence_duplicates := confluence_duplicates st + 1,
                   confluence_errors :=
                     confluence_errors st @ [AlreadyExists (get_or issue ''key'' PNone)],
                   page_calls := page_calls st @ [PageCreate issue]\<rparr>
           else st\<lparr>confluence_errors := confluence_errors st @ [ConfluenceError error_msg],
                   page_calls := page_calls st @ [PageCreate issue]\<rparr>)
      | CreateRaised \<Rightarrow> st\<lparr>page_calls := page_calls st @ [PageCreate issue]\<rparr>
      | Created \<Rightarrow> st\<lparr>confluence_success := confluence_success st + 1,
                        page_calls := page_calls st @ [PageCreate issue]\<rparr>
      | Unexpected \<Rightarrow> st\<lparr>page_calls := page_calls st @ [PageCreate issue]\<rparr>)"

text \<open>
  The loop \<^verbatim>\<open>for issue in parsed\<close> of the wiki branch. The content check stands
  outside the inner \<^verbatim>\<open>try\<close>, so an error it raises leaves the function.
\<close>

fun confluence_loop ::
  "(issue \<Rightarrow> page_result) \<Rightarrow> issue list \<Rightarrow> confluence_state \<Rightarrow> error + confluence_state" where
  "confluence_loop create_page [] st = Inr st"
| "confluence_loop create_page (issue # rest) st =
     (if truthy (get_or issue ''ai_enriched'' (PBool False)) then
        (case has_meaningful_content issue of
           Inl err \<Rightarrow> Inl err
         | Inr has_content \<Rightarrow>
             if has_content then
               confluence_loop create_page rest (page_step issue (create_page issue) st)
             else confluence_loop create_page rest
                    (st\<lparr>confluence_skipped := confluence_skipped st + 1\<rparr>))
      else confluence_loop create_page rest (st\<lparr>confluence_skipped := confluence_skipped st + 1\<rparr>))"

definition confluence_report :: "confluence_state \<Rightarrow> detail list \<times> warning list" where
  "confluence_report st =
     ([ConfluenceStatus (confluence_success st) (confluence_skipped st)]
        @ (if confluence_duplicates st > 0 then [DuplicatesFound (confluence_duplicates st)] else []),
      confluence_errors st
        @ (if confluence_success st = 0 \<and> confluence_skipped st > 0 then [NoPagesCreated] else []))"

definition skipped_confluence_report :: "config \<Rightarrow> detail list \<times> warning list" where
  "skipped_confluence_report cfg =
     (if (case file_types_to_save cfg of None \<Rightarrow> False | Some ts \<Rightarrow> ts \<noteq> [] \<and> ''conf'' \<in> set ts)
      then
        (if \<not> has_confluence_space cfg then ([], [MissingSpace])
         else if \<not> has_confluence_parent cfg then ([], [MissingParent])
         else ([SkippingNotEnabled], []))
      else ([], []))"

text \<open>The summary logged after the enrichments, with the two counts as arguments.\<close>

definition enrichment_summary :: "bool list \<Rightarrow> log_entry list" where
  "enrichment_summary enrichment_results =
     Log INFO ''Successfully enriched {} out of {} issues''
       [PInt (int (length (filter (\<lambda>r. r) enrichment_results))),
        PInt (int (length enrichment_results))]
     # (if length (filter (\<lambda>r. r) enrichment_results) = 0
        then [Log ERROR
          ''No issues were successfully enriched with AI content. Check Azure OpenAI connectivity.'' []]
        else [])"

text \<open>
  The run of a batch: the persistence calls made, the records logged by the enrichments,
  the warning for an empty result and the summary, and how the function ends: an error raised, or the issues as
  enriched, the gathered results and the value returned (\<open>None\<close> for the bare
  \<^verbatim>\<open>return\<close>). At \<^verbatim>\<open>DEBUG\<close> level the raw dump calls
  \<^verbatim>\<open>create_file_path\<close> with two of its three required arguments, a \<^verbatim>\<open>TypeError\<close>.
\<close>

record batch =
  persisted :: "persist_event list"
  batch_log :: "log_entry list"
  finished :: "error + (issue list \<times> bool list \<times> status_result option)"

definition fetch_and_analyze_issues ::
  "env \<Rightarrow> config \<Rightarrow> (issue \<Rightarrow> page_result) \<Rightarrow> fetched \<Rightarrow> batch" where
  "fetch_and_analyze_issues e cfg create_page fetch =
     (case fetch of
        WrapperFailed \<Rightarrow> \<lparr>persisted = [], batch_log = [], finished = Inl JiraFetchError\<rparr>
      | SearchFailed \<Rightarrow> \<lparr>persisted = [], batch_log = [], finished = Inl JiraFetchError\<rparr>
      | Parsed parsed \<Rightarrow>
          if parsed = [] then
            \<lparr>persisted = [], batch_log = [Log WARNING ''No issues found for JQL: {}'' []],
             finished = Inr ([], [], None)\<rparr>
          else if debug_logging cfg then
            \<lparr>persisted = [], batch_log = [], finished = Inl TypeError\<rparr>
          else
            (case gather (map (add_ai_analysis_to_issue e) parsed) of
               Inl err \<Rightarrow> \<lparr>persisted = [], batch_log = [], finished = Inl err\<rparr>
             | Inr rs \<Rightarrow>
                 if (case create_confluence_pages cfg of None \<Rightarrow> False | Some b \<Rightarrow> b) then
                   (case confluence_loop create_page (map issue_after rs)
                           \<lparr>confluence_success = 0, confluence_skipped = 0, confluence_errors = [],
                            confluence_duplicates = 0, page_calls = []\<rparr> of
                      Inl err \<Rightarrow>
                        \<lparr>persisted = save_calls cfg (map issue_after rs),
                         batch_log = concat (map logged rs) @ enrichment_summary (map returned rs),
                         finished = Inl err\<rparr>
                    | Inr st \<Rightarrow>
                        \<lparr>persisted = save_calls cfg (map issue_after rs) @ page_calls st,
                         batch_log = concat (map logged rs) @ enrichment_summary (map returned rs),
                         finished = Inr (map issue_after rs, map returned rs,
                           Some \<lparr>status = ''success'',
                                 details = fst (confluence_report st) @ [ProcessingCompleted],
                                 warnings = snd (confluence_report st)\<rparr>)\<rparr>)
                 else
                   \<lparr>persisted = save_calls cfg (map issue_after rs),
                    batch_log = concat (map logged rs) @ enrichment_summary (map returned rs),
                    finished = Inr (map issue_after rs, map returned rs,
                      Some \<lparr>status = ''success'',
                            details = fst (skipped_confluence_report cfg) @ [ProcessingCompleted],
                            warnings = snd (skipped_confluence_report cfg)\<rparr>)\<rparr>))"

section \<open>Stub collaborators for the examples\<close>

text \<open>
  A bug analysis as the model could return it, a validator that accepts every JSON text
  as that analysis, and invokers with scripted outcomes.
\<close>

definition bug_result :: analysis where
  "bug_result =
     \<lparr>model_fields = [''ticket_number'', ''executive_summary'', ''technical_summary'',
                      ''cause'', ''fix''],
      getattr = (\<lambda>f. if f = ''ticket_number'' then PStr ''IP-42''
                      else if f = ''executive_summary'' then PStr ''App crashes when saving''
                      else if f = ''technical_summary'' then PStr ''Null pointer in save handler''
                      else if f = ''cause'' then PStr ''Missing null check''
                      else if f = ''fix'' then PStr ''Added guard clause''
                      else PNone)\<rparr>"

definition stub_env :: "(issue \<Rightarrow> nat \<Rightarrow> outcome) \<Rightarrow> env" where
  "stub_env invoke =
     \<lparr>json_loads_ok = json_loads,
      model_validate_json = (\<lambda>v j. Some bug_result),
      kernel_invoke = (\<lambda>t. invoke),
      py_str = (\<lambda>v. case v of PStr s \<Rightarrow> s | _ \<Rightarrow> ''None''),
      jira_url = Some ''https://jira.example.com''\<rparr>"






definition never_json :: "issue \<Rightarrow> nat \<Rightarrow> outcome" where
  "never_json s n = Result (Some ''sorry'')"

text \<open>An invoker that answers for the issues with the given keys and fails for the others.\<close>

definition succeed_for :: "string list \<Rightarrow> issue \<Rightarrow> nat \<Rightarrow> outcome" where
  "succeed_for keys s n =
     (case s ''key'' of
        Some (PStr k) \<Rightarrow> if k \<in> set keys then Result (Some ''{}'') else Result None
      | _ \<Rightarrow> Result None)"

definition bug_issue :: "string \<Rightarrow> issue" where
  "bug_issue k =
     [''key'' \<mapsto> PStr k, ''issuetype'' \<mapsto> PStr ''Bug'', ''summary'' \<mapsto> PStr ''Crash on save'']"

definition default_config :: config where
  "default_config =
     \<lparr>create_local_files = None, create_confluence_pages = None, file_types_to_save = None,
      jira_issue_type = None, debug_logging = False, has_confluence_space = False,
      has_confluence_parent = False\<rparr>"




section \<open>Properties of the response extractor\<close>









section \<open>Properties of the retry controller\<close>

text \<open>The loop unrolled from each of the three starting points.\<close>

lemma loop_from3: "attempt_loop loads validate invoke 3 = ([], Inr None)"
  by (subst attempt_loop.simps) (simp add: max_attempts_def)

lemma loop_from2:
  "attempt_loop loads validate invoke 2 =
     (case run_attempt loads validate (invoke 3) of
        Return a \<Rightarrow> ([Attempt 3], Inr (Some a))
      | Fatal err \<Rightarrow> ([Attempt 3], Inl err)
      | RetryNow \<Rightarrow> ([Attempt 3], Inr None)
      | RetryAfterSleep \<Rightarrow> ([Attempt 3, Sleep 8], Inr None)
      | Backoff \<Rightarrow> ([Attempt 3], Inr None))"
  by (subst attempt_loop.simps) (simp add: max_attempts_def emit_def loop_from3 split: step.splits)

lemma loop_from1:
  "attempt_loop loads validate invoke (Suc 0) =
     (case run_attempt loads validate (invoke 2) of
        Return a \<Rightarrow> ([Attempt 2], Inr (Some a))
      | Fatal err \<Rightarrow> ([Attempt 2], Inl err)
      | RetryNow \<Rightarrow> emit [Attempt 2] (attempt_loop loads validate invoke 2)
      | RetryAfterSleep \<Rightarrow> emit [Attempt 2, Sleep 4] (attempt_loop loads validate invoke 2)
      | Backoff \<Rightarrow> emit [Attempt 2, Sleep 4] (attempt_loop loads validate invoke 2))"
  by (subst attempt_loop.simps) (simp add: max_attempts_def eval_nat_numeral split: step.splits)

lemma loop_from0:
  "attempt_loop loads validate invoke 0 =
     (case run_attempt loads validate (invoke (Suc 0)) of
        Return a \<Rightarrow> ([Attempt (Suc 0)], Inr (Some a))
      | Fatal err \<Rightarrow> ([Attempt (Suc 0)], Inl err)
      | RetryNow \<Rightarrow> emit [Attempt (Suc 0)] (attempt_loop loads validate invoke (Suc 0))
      | RetryAfterSleep \<Rightarrow>
          emit [Attempt (Suc 0), Sleep 2] (attempt_loop loads validate invoke (Suc 0))
      | Backoff \<Rightarrow> emit [Attempt (Suc 0), Sleep 2] (attempt_loop loads validate invoke (Suc 0)))"
  by (subst attempt_loop.simps) (simp add: max_attempts_def split: step.splits)

lemmas loop_unroll = loop_from0 loop_from1 loop_from2










lemma extract_braces: "extract_json_from_text json_loads ''{}'' = ''{}''"
  by code_simp






section \<open>The brace walk and later objects\<close>

text \<open>
  Claim C4. The claim promises that when the fragment opened by the first brace does not
  decode, the extractor goes on to a later object. The walk does go on, but every
  candidate still starts at the first brace, so a later object is never tried on its
  own: here the first fragment does not decode, the later object does, and the result is
  empty.
\<close>

theorem later_object_is_not_found:
  \<open>\<not> json_loads ''{bad}'' \<and> json_loads ''{"a": 1}''
   \<and> extract_json_from_text json_loads ''{bad} {"a": 1}'' = []\<close>
  by code_simp

section \<open>Properties of the issue enricher\<close>










section \<open>Properties of the content check\<close>




section \<open>Properties of the merge\<close>

lemma fold_update:
  "fold (\<lambda>field i. i(field \<mapsto> g field)) fs m f = (if f \<in> set fs then Some (g f) else m f)"
  by (induction fs arbitrary: m) auto

lemma merge_fields_apply:
  "merge_fields issue r f = (if f \<in> set (model_fields r) then Some (getattr r f) else issue f)"
  by (simp add: merge_fields_def fold_update)

lemma clean_ticket_number_Inr:
  assumes "clean_ticket_number m = Inr c"
  shows "(\<forall>f. f \<noteq> ''ticket_number'' \<longrightarrow> c f = m f)
       \<and> (m ''ticket_number'' = None \<longrightarrow> c ''ticket_number'' = None)
       \<and> (\<forall>s. m ''ticket_number'' = Some (PStr s) \<longrightarrow>
              c ''ticket_number'' = Some (PStr (if re_match_ip s then [] else s)))
       \<and> dom m \<subseteq> dom c"
  using assms
  by (auto simp: clean_ticket_number_def get_or_def re_match_ip_def
      split: option.splits pyval.splits if_splits)

lemma set_browsable_url_Inr:
  assumes "set_browsable_url e c = Inr l"
  shows "(\<forall>f. f \<noteq> ''browsable_url'' \<longrightarrow> l f = c f) \<and> dom c \<subseteq> dom l"
  using assms
  by (auto simp: set_browsable_url_def split: option.splits)

lemma enrich_success:
  assumes "issue_type_text issue = Inr t"
    and "snd (analyze_issue_with_ai e (snippet_of (snippet_keys t) issue) t) = Inr (Some r)"
    and "add_ai_analysis_to_issue e issue = Inr out"
  shows "\<exists>cleaned linked. clean_ticket_number (merge_fields issue r) = Inr cleaned
           \<and> set_browsable_url e cleaned = Inr linked
           \<and> issue_after out = linked(''ai_enriched'' \<mapsto> PBool True) \<and> returned out"
  using assms
  by (auto simp: add_ai_analysis_to_issue_def split: sum.splits)

lemma enrich_cases:
  assumes "add_ai_analysis_to_issue e issue = Inr out"
  shows "issue_after out = issue(''ai_enriched'' \<mapsto> PBool False)
       \<or> (\<exists>r cleaned linked. clean_ticket_number (merge_fields issue r) = Inr cleaned
           \<and> set_browsable_url e cleaned = Inr linked
           \<and> issue_after out = linked(''ai_enriched'' \<mapsto> PBool True))"
proof -
  from assms obtain t where t: "issue_type_text issue = Inr t"
    by (cases "issue_type_text issue") (simp_all add: add_ai_analysis_to_issue_def)
  let ?res = "snd (analyze_issue_with_ai e (snippet_of (snippet_keys t) issue) t)"
  from assms t obtain a where a: "?res = Inr a"
    by (cases ?res) (simp_all add: add_ai_analysis_to_issue_def)
  show ?thesis
  proof (cases a)
    case None
    with assms t a show ?thesis by (auto simp: add_ai_analysis_to_issue_def)
  next
    case (Some r)
    with a have "?res = Inr (Some r)" by simp
    from enrich_success[OF t this assms] show ?thesis by blast
  qed
qed

lemma dom_merge_fields: "dom issue \<subseteq> dom (merge_fields issue r)"
  by (auto simp: merge_fields_apply)

lemma enrich_keeps_fields:
  assumes "add_ai_analysis_to_issue e issue = Inr out"
  shows "dom issue \<subseteq> dom (issue_after out)"
proof -
  from enrich_cases[OF assms] show ?thesis
  proof
    assume "issue_after out = issue(''ai_enriched'' \<mapsto> PBool False)"
    then show ?thesis by auto
  next
    assume "\<exists>r cleaned linked. clean_ticket_number (merge_fields issue r) = Inr cleaned
           \<and> set_browsable_url e cleaned = Inr linked
           \<and> issue_after out = linked(''ai_enriched'' \<mapsto> PBool True)"
    then obtain r cleaned linked where
      c: "clean_ticket_number (merge_fields issue r) = Inr cleaned"
      and l: "set_browsable_url e cleaned = Inr linked"
      and o: "issue_after out = linked(''ai_enriched'' \<mapsto> PBool True)"
      by blast
    have "dom issue \<subseteq> dom (merge_fields issue r)" by (rule dom_merge_fields)
    also have "\<dots> \<subseteq> dom cleaned" using clean_ticket_number_Inr[OF c] by blast
    also have "\<dots> \<subseteq> dom linked" using set_browsable_url_Inr[OF l] by blast
    also have "\<dots> \<subseteq> dom (issue_after out)" unfolding o by auto
    finally show ?thesis .
  qed
qed

text \<open>
  Claim C8. The merge writes every field of the result into the issue, leaves every
  other field as it was and deletes none. Within the enricher the issue it leaves agrees
  with the merge on every field but the three that the later steps write
  (\<^verbatim>\<open>ticket_number\<close>, \<^verbatim>\<open>browsable_url\<close>, \<^verbatim>\<open>ai_enriched\<close>), and the
  enricher as a whole deletes no field either.
\<close>

theorem merge_is_additive:
  "(\<forall>f \<in> set (model_fields r). merge_fields issue r f = Some (getattr r f))
   \<and> (\<forall>f. f \<notin> set (model_fields r) \<longrightarrow> merge_fields issue r f = issue f)
   \<and> dom issue \<subseteq> dom (merge_fields issue r)
   \<and> (\<forall>t out. issue_type_text issue = Inr t
          \<and> snd (analyze_issue_with_ai e (snippet_of (snippet_keys t) issue) t) = Inr (Some r)
          \<and> add_ai_analysis_to_issue e issue = Inr out \<longrightarrow>
        (\<forall>f. f \<notin> {''ticket_number'', ''browsable_url'', ''ai_enriched''} \<longrightarrow>
             issue_after out f = merge_fields issue r f))
   \<and> (\<forall>out. add_ai_analysis_to_issue e issue = Inr out \<longrightarrow> dom issue \<subseteq> dom (issue_after out))"
proof -
  have a: "\<forall>f \<in> set (model_fields r). merge_fields issue r f = Some (getattr r f)"
    by (simp add: merge_fields_apply)
  have b: "\<forall>f. f \<notin> set (model_fields r) \<longrightarrow> merge_fields issue r f = issue f"
    by (simp add: merge_fields_apply)
  have c: "\<forall>t out. issue_type_text issue = Inr t
          \<and> snd (analyze_issue_with_ai e (snippet_of (snippet_keys t) issue) t) = Inr (Some r)
          \<and> add_ai_analysis_to_issue e issue = Inr out \<longrightarrow>
        (\<forall>f. f \<notin> {''ticket_number'', ''browsable_url'', ''ai_enriched''} \<longrightarrow>
             issue_after out f = merge_fields issue r f)"
  proof (intro allI impI, elim conjE)
    fix t out f
    assume t: "issue_type_text issue = Inr t"
      and r: "snd (analyze_issue_with_ai e (snippet_of (snippet_keys t) issue) t) = Inr (Some r)"
      and out: "add_ai_analysis_to_issue e issue = Inr out"
      and f: "f \<notin> {''ticket_number'', ''browsable_url'', ''ai_enriched''}"
    from enrich_success[OF t r out] obtain cleaned linked where
      c: "clean_ticket_number (merge_fields issue r) = Inr cleaned"
      and l: "set_browsable_url e cleaned = Inr linked"
      and o: "issue_after out = linked(''ai_enriched'' \<mapsto> PBool True)"
      by blast
    from f have "issue_after out f = linked f" unfolding o by simp
    also from f have "\<dots> = cleaned f" using set_browsable_url_Inr[OF l] by simp
    also from f have "\<dots> = merge_fields issue r f" using clean_ticket_number_Inr[OF c] by simp
    finally show "issue_after out f = merge_fields issue r f" .
  qed
  have d: "dom issue \<subseteq> dom (merge_fields issue r)"
    by (rule dom_merge_fields)
  have k: "\<forall>out. add_ai_analysis_to_issue e issue = Inr out \<longrightarrow> dom issue \<subseteq> dom (issue_after out)"
    by (intro allI impI) (rule enrich_keeps_fields)
  show ?thesis
    by (rule conjI[OF a conjI[OF b conjI[OF d conjI[OF c k]]]])
qed

text \<open>
  Claim C9. After a successful enrichment, a merged ticket number that matches the
  placeholder pattern at its start is the empty string, and any other merged ticket
  number is as merged.
\<close>

theorem placeholder_ticket_number_is_cleared:
  assumes "issue_type_text issue = Inr t"
    and "snd (analyze_issue_with_ai e (snippet_of (snippet_keys t) issue) t) = Inr (Some r)"
    and "add_ai_analysis_to_issue e issue = Inr out"
    and "merge_fields issue r ''ticket_number'' = Some (PStr s)"
  shows "issue_after out ''ticket_number'' = Some (PStr (if re_match_ip s then [] else s))"
proof -
  from enrich_success[OF assms(1-3)] obtain cleaned linked where
    c: "clean_ticket_number (merge_fields issue r) = Inr cleaned"
    and l: "set_browsable_url e cleaned = Inr linked"
    and o: "issue_after out = linked(''ai_enriched'' \<mapsto> PBool True)"
    by blast
  have "issue_after out ''ticket_number'' = linked ''ticket_number''" unfolding o by simp
  also have "\<dots> = cleaned ''ticket_number''" using set_browsable_url_Inr[OF l] by simp
  also have "\<dots> = Some (PStr (if re_match_ip s then [] else s))"
    using clean_ticket_number_Inr[OF c] assms(4) by blast
  finally show ?thesis .
qed

lemma snippet_key:
  "snippet_of (snippet_keys t) (bug_issue k) ''key'' = Some (PStr k)"
  by (simp add: snippet_of_def snippet_keys_def get_or_def bug_issue_def)

lemma bug_issue_type: "issue_type_text (bug_issue k) = Inr ''Bug''"
  by (simp add: issue_type_text_def bug_issue_def)

lemma succeed_for_analysis:
  "k \<in> set ks \<Longrightarrow>
   snd (analyze_issue_with_ai (stub_env (succeed_for ks))
          (snippet_of (snippet_keys t) (bug_issue k)) ''Bug'') = Inr (Some bug_result)"
  by (simp add: snippet_key analyze_issue_with_ai_def stub_env_def succeed_for_def loop_from0
      run_attempt_def extract_braces)

lemma succeed_for_none:
  "k \<notin> set ks \<Longrightarrow>
   snd (analyze_issue_with_ai (stub_env (succeed_for ks))
          (snippet_of (snippet_keys t) (bug_issue k)) ''Bug'') = Inr None"
  by (simp add: snippet_key analyze_issue_with_ai_def stub_env_def succeed_for_def loop_unroll emit_def
      run_attempt_def)

lemma merged_ticket_number:
  "merge_fields (bug_issue k) bug_result ''ticket_number'' = Some (PStr ''IP-42'')"
  by (simp add: merge_fields_apply bug_result_def)

lemma merged_key: "merge_fields (bug_issue k) bug_result ''key'' = Some (PStr k)"
  by (simp add: merge_fields_apply bug_result_def bug_issue_def)

lemma enrich_stub_returns:
  "\<exists>out. add_ai_analysis_to_issue (stub_env (succeed_for ks)) (bug_issue k) = Inr out
         \<and> returned out = (k \<in> set ks)"
proof (cases "k \<in> set ks")
  case True
  have "get_or (merge_fields (bug_issue k) bug_result) ''ticket_number'' (PStr []) = PStr ''IP-42''"
    by (simp add: get_or_def merged_ticket_number)
  then have "\<exists>s. get_or (merge_fields (bug_issue k) bug_result) ''ticket_number'' (PStr []) = PStr s"
    by blast
  moreover have "jira_url (stub_env (succeed_for ks)) \<noteq> None"
    by (simp add: stub_env_def)
  moreover have "merge_fields (bug_issue k) bug_result ''key'' \<noteq> None"
    by (simp add: merged_key)
  moreover note succeed_for_analysis[OF True, of "''Bug''"]
  ultimately have "\<exists>out. add_ai_analysis_to_issue (stub_env (succeed_for ks)) (bug_issue k) = Inr out
         \<and> returned out"
    by (auto simp: add_ai_analysis_to_issue_def bug_issue_type clean_ticket_number_def
        set_browsable_url_def split: option.splits)
  with True show ?thesis by simp
next
  case False
  from succeed_for_none[OF False, of "''Bug''"] False show ?thesis
    by (simp add: add_ai_analysis_to_issue_def bug_issue_type)
qed

theorem merge_is_additive_witness:
  "merge_fields (bug_issue ''ABC-1'') bug_result ''cause'' = Some (PStr ''Missing null check'')
   \<and> merge_fields (bug_issue ''ABC-1'') bug_result ''summary'' = Some (PStr ''Crash on save'')
   \<and> ''key'' \<in> dom (merge_fields (bug_issue ''ABC-1'') bug_result)"
proof -
  note m = merge_is_additive[of bug_result "bug_issue ''ABC-1''" "stub_env never_json"]
  have written: "\<forall>f\<in>set (model_fields bug_result).
      merge_fields (bug_issue ''ABC-1'') bug_result f = Some (getattr bug_result f)"
    by (rule m[THEN conjunct1])
  have kept: "\<forall>f. f \<notin> set (model_fields bug_result) \<longrightarrow>
      merge_fields (bug_issue ''ABC-1'') bug_result f = bug_issue ''ABC-1'' f"
    by (rule m[THEN conjunct2, THEN conjunct1])
  have grown: "dom (bug_issue ''ABC-1'') \<subseteq> dom (merge_fields (bug_issue ''ABC-1'') bug_result)"
    by (rule m[THEN conjunct2, THEN conjunct2, THEN conjunct1])
  have "''cause'' \<in> set (model_fields bug_result)"
    by (simp add: bug_result_def)
  with written have a: "merge_fields (bug_issue ''ABC-1'') bug_result ''cause''
      = Some (getattr bug_result ''cause'')"
    by blast
  have "''summary'' \<notin> set (model_fields bug_result)"
    by (simp add: bug_result_def)
  with kept have b: "merge_fields (bug_issue ''ABC-1'') bug_result ''summary''
      = bug_issue ''ABC-1'' ''summary''"
    by blast
  have "''key'' \<in> dom (bug_issue ''ABC-1'')"
    by (simp add: bug_issue_def)
  with grown have c: "''key'' \<in> dom (merge_fields (bug_issue ''ABC-1'') bug_result)"
    by blast
  from a b c show ?thesis
    by (simp add: bug_result_def bug_issue_def)
qed

lemma matches_placeholder: "re_match_ip ''IP-42''"
  by code_simp

theorem placeholder_ticket_number_is_cleared_witness:
  "\<exists>out. add_ai_analysis_to_issue (stub_env (succeed_for [''ABC-1''])) (bug_issue ''ABC-1'') = Inr out
     \<and> merge_fields (bug_issue ''ABC-1'') bug_result ''ticket_number'' = Some (PStr ''IP-42'')
     \<and> issue_after out ''ticket_number'' = Some (PStr [])"
proof -
  obtain out where out:
    "add_ai_analysis_to_issue (stub_env (succeed_for [''ABC-1''])) (bug_issue ''ABC-1'') = Inr out"
    using enrich_stub_returns by blast
  have run: "snd (analyze_issue_with_ai (stub_env (succeed_for [''ABC-1'']))
               (snippet_of (snippet_keys ''Bug'') (bug_issue ''ABC-1'')) ''Bug'')
             = Inr (Some bug_result)"
    by (rule succeed_for_analysis) simp
  from placeholder_ticket_number_is_cleared[OF bug_issue_type run out merged_ticket_number]
  have "issue_after out ''ticket_number'' = Some (PStr [])"
    by (simp add: matches_placeholder)
  with out merged_ticket_number show ?thesis by blast
qed

section \<open>Properties of the batch coordinator\<close>

text \<open>
  Claim C10. With no issue fetched, nothing is persisted and the function ends with the
  bare \<^verbatim>\<open>return\<close>, not with a status result; whenever something is persisted,
  issues were fetched.
\<close>

theorem empty_fetch_persists_nothing:
  "persisted (fetch_and_analyze_issues e cfg create_page (Parsed [])) = []
   \<and> finished (fetch_and_analyze_issues e cfg create_page (Parsed [])) = Inr ([], [], None)
   \<and> (persisted (fetch_and_analyze_issues e cfg create_page fetch) \<noteq> [] \<longrightarrow>
        (\<exists>parsed. fetch = Parsed parsed \<and> parsed \<noteq> []))"
  by (cases fetch) (auto simp: fetch_and_analyze_issues_def)

theorem empty_fetch_persists_nothing_witness:
  "persisted (fetch_and_analyze_issues (stub_env never_json) default_config (\<lambda>i. Created)
      (Parsed [])) = []
   \<and> finished (fetch_and_analyze_issues (stub_env never_json) default_config (\<lambda>i. Created)
      (Parsed [])) = Inr ([], [], None)"
  using empty_fetch_persists_nothing[of "stub_env never_json" default_config "\<lambda>i. Created"
      "Parsed []"]
  by blast














end
